theory Spec2Isabelle
  imports Main
begin

section \<open>Values and Python primitives\<close>

text \<open>
  The records validated by \<^verbatim>\<open>src/traderjoes/Validation.py\<close> are what \<^verbatim>\<open>json.load\<close>
  produces: \<^verbatim>\<open>None\<close>, booleans, integers, strings, lists and dicts with string keys.
  Floating-point numbers are left out of the value type. A string is a list of
  characters, one \<open>char\<close> per code point below 256. A dict is an association list that is
  read at its first entry for a key (\<open>map_of\<close>).
\<close>

datatype json =
    JNull
  | JBool bool
  | JInt int
  | JStr string
  | JList "json list"
  | JDict "(string \<times> json) list"

type_synonym pydict = "(string \<times> json) list"

text \<open>The exceptions that the functions of the module can raise on such values.\<close>

datatype py_error = TypeError

text \<open>
  The second component of the pairs returned by the checks: a string, or the list of
  strings that the schema check accumulates.
\<close>

datatype reason = Msg string | Msgs "string list"

type_synonym outcome = "bool \<times> reason"

text \<open>\<^verbatim>\<open>d.get(key)\<close>: the value, or \<^verbatim>\<open>None\<close> for a missing key.\<close>

definition dict_get :: "pydict \<Rightarrow> string \<Rightarrow> json" where
  "dict_get d key = (case map_of d key of None \<Rightarrow> JNull | Some v \<Rightarrow> v)"

text \<open>\<^verbatim>\<open>key in d\<close>.\<close>

definition dict_has :: "pydict \<Rightarrow> string \<Rightarrow> bool" where
  "dict_has d key = (map_of d key \<noteq> None)"

section \<open>Structural presence check\<close>

text \<open>
  \<^verbatim>\<open>
  def is_valid_product_data(product_data):
      if not isinstance(product_data, dict):
          return False
      required_keys = ['brand', 'title', 'product_id','url','retail_price','image','category']
      for key in required_keys:
          if key not in product_data:
              return False
      return True
  \<close>
\<close>

definition required_keys :: "string list" where
  "required_keys =
     [''brand'', ''title'', ''product_id'', ''url'', ''retail_price'', ''image'', ''category'']"

fun required_loop :: "string list \<Rightarrow> pydict \<Rightarrow> bool" where
  "required_loop [] product_data = True"
| "required_loop (key # rest) product_data =
     (if \<not> dict_has product_data key then False else required_loop rest product_data)"

fun is_valid_product_data :: "json \<Rightarrow> bool" where
  "is_valid_product_data (JDict product_data) = required_loop required_keys product_data"
| "is_valid_product_data _ = False"

section \<open>Schema type check\<close>

text \<open>The classes that \<^verbatim>\<open>type(v)\<close> yields on the values above, and \<^verbatim>\<open>isinstance\<close>.\<close>

datatype pyclass = C_str | C_int | C_bool | C_list | C_dict | C_NoneType

text \<open>The second argument of \<^verbatim>\<open>isinstance\<close>: a class, or a pair of classes.\<close>

datatype classinfo = Class pyclass | ClassPair pyclass pyclass

fun type_of :: "json \<Rightarrow> pyclass" where
  "type_of JNull = C_NoneType"
| "type_of (JBool b) = C_bool"
| "type_of (JInt i) = C_int"
| "type_of (JStr s) = C_str"
| "type_of (JList xs) = C_list"
| "type_of (JDict d) = C_dict"

text \<open>\<^verbatim>\<open>bool\<close> is a subclass of \<^verbatim>\<open>int\<close>; the other classes are unrelated.\<close>

definition issubclass :: "pyclass \<Rightarrow> pyclass \<Rightarrow> bool" where
  "issubclass c d = (c = d \<or> (c = C_bool \<and> d = C_int))"

fun isinstance :: "json \<Rightarrow> classinfo \<Rightarrow> bool" where
  "isinstance v (Class c) = issubclass (type_of v) c"
| "isinstance v (ClassPair c d) = (issubclass (type_of v) c \<or> issubclass (type_of v) d)"

text \<open>How a class and a pair of classes are rendered inside an f-string.\<close>

fun class_name :: "pyclass \<Rightarrow> string" where
  "class_name C_str = ''str''"
| "class_name C_int = ''int''"
| "class_name C_bool = ''bool''"
| "class_name C_list = ''list''"
| "class_name C_dict = ''dict''"
| "class_name C_NoneType = ''NoneType''"

definition quoted :: "string \<Rightarrow> string" where
  "quoted s = [CHR 0x27] @ s @ [CHR 0x27]"

definition class_str :: "pyclass \<Rightarrow> string" where
  "class_str c = ''<class '' @ quoted (class_name c) @ ''>''"

fun classinfo_str :: "classinfo \<Rightarrow> string" where
  "classinfo_str (Class c) = class_str c"
| "classinfo_str (ClassPair c d) = ''('' @ class_str c @ '', '' @ class_str d @ '')''"

text \<open>
  \<^verbatim>\<open>
  def validate_product_data_schema(product_data):
      expected_structure = {
          'brand': str, 'title': str, 'description' : str, 'image' : str, 'images': list,
          'retail_price': str, 'final_price': str, 'url': str, 'product_id': int,
          'category': str, 'sales_size': str, 'availability' : str, 'Buzzwords': list,
          'nutrition': (dict, type(None)), 'ingredients' : (list, type(None)),
          'country_of_origin':(str, type(None)),
      }
      validation_errors = []
      for key, value in expected_structure.items():
          if key not in product_data:
              validation_errors.append(f"Missing key '{key}' in product data.")
          elif not isinstance(product_data[key], value):
              validation_errors.append(f"Key '{key}' has incorrect type. Expected type: {value}, Actual type: {type(product_data[key])}")
      if validation_errors:
          return False, validation_errors
      return True, "Product data schema is valid."
  \<close>
\<close>

definition expected_structure :: "(string \<times> classinfo) list" where
  "expected_structure =
     [(''brand'', Class C_str),
      (''title'', Class C_str),
      (''description'', Class C_str),
      (''image'', Class C_str),
      (''images'', Class C_list),
      (''retail_price'', Class C_str),
      (''final_price'', Class C_str),
      (''url'', Class C_str),
      (''product_id'', Class C_int),
      (''category'', Class C_str),
      (''sales_size'', Class C_str),
      (''availability'', Class C_str),
      (''Buzzwords'', Class C_list),
      (''nutrition'', ClassPair C_dict C_NoneType),
      (''ingredients'', ClassPair C_list C_NoneType),
      (''country_of_origin'', ClassPair C_str C_NoneType)]"

definition missing_key_message :: "string \<Rightarrow> string" where
  "missing_key_message key = ''Missing key '' @ quoted key @ '' in product data.''"

definition incorrect_type_message :: "string \<Rightarrow> classinfo \<Rightarrow> pyclass \<Rightarrow> string" where
  "incorrect_type_message key value actual =
     ''Key '' @ quoted key @ '' has incorrect type. Expected type: '' @ classinfo_str value
       @ '', Actual type: '' @ class_str actual"

fun schema_loop :: "(string \<times> classinfo) list \<Rightarrow> pydict \<Rightarrow> string list \<Rightarrow> string list" where
  "schema_loop [] product_data validation_errors = validation_errors"
| "schema_loop ((key, value) # rest) product_data validation_errors =
     (if \<not> dict_has product_data key then
        schema_loop rest product_data (validation_errors @ [missing_key_message key])
      else if \<not> isinstance (dict_get product_data key) value then
        schema_loop rest product_data
          (validation_errors @
             [incorrect_type_message key value (type_of (dict_get product_data key))])
      else schema_loop rest product_data validation_errors)"

definition validate_product_data_schema :: "pydict \<Rightarrow> outcome" where
  "validate_product_data_schema product_data =
     (let validation_errors = schema_loop expected_structure product_data [] in
      if validation_errors \<noteq> [] then (False, Msgs validation_errors)
      else (True, Msg ''Product data schema is valid.''))"

subsection \<open>The Expected Schema as the specification words it\<close>

text \<open>
  The specification gives each of the 16 fields a type in its own vocabulary:
  string, integer, ordered sequence of string, mapping-or-null, sequence-or-null and
  string-or-null, over values that are a string, an integer, a boolean, null, an ordered
  sequence or a mapping.
\<close>

datatype spec_type =
  String | Integer | SequenceOfString | MappingOrNull | SequenceOrNull | StringOrNull

definition spec_schema :: "(string \<times> spec_type) list" where
  "spec_schema =
     [(''brand'', String),
      (''title'', String),
      (''description'', String),
      (''image'', String),
      (''images'', SequenceOfString),
      (''retail_price'', String),
      (''final_price'', String),
      (''url'', String),
      (''product_id'', Integer),
      (''category'', String),
      (''sales_size'', String),
      (''availability'', String),
      (''Buzzwords'', SequenceOfString),
      (''nutrition'', MappingOrNull),
      (''ingredients'', SequenceOrNull),
      (''country_of_origin'', StringOrNull)]"

fun is_string :: "json \<Rightarrow> bool" where
  "is_string (JStr s) = True"
| "is_string _ = False"

fun spec_has_type :: "json \<Rightarrow> spec_type \<Rightarrow> bool" where
  "spec_has_type v String = is_string v"
| "spec_has_type v Integer = (case v of JInt i \<Rightarrow> True | _ \<Rightarrow> False)"
| "spec_has_type v SequenceOfString = (case v of JList xs \<Rightarrow> list_all is_string xs | _ \<Rightarrow> False)"
| "spec_has_type v MappingOrNull = (case v of JDict d \<Rightarrow> True | JNull \<Rightarrow> True | _ \<Rightarrow> False)"
| "spec_has_type v SequenceOrNull = (case v of JList xs \<Rightarrow> True | JNull \<Rightarrow> True | _ \<Rightarrow> False)"
| "spec_has_type v StringOrNull = (case v of JStr s \<Rightarrow> True | JNull \<Rightarrow> True | _ \<Rightarrow> False)"

text \<open>
  The same reading with two relaxations: a boolean counts as an integer, and the
  entries of a sequence are not examined.
\<close>

fun relaxed_has_type :: "json \<Rightarrow> spec_type \<Rightarrow> bool" where
  "relaxed_has_type v Integer = (case v of JInt i \<Rightarrow> True | JBool b \<Rightarrow> True | _ \<Rightarrow> False)"
| "relaxed_has_type v SequenceOfString = (case v of JList xs \<Rightarrow> True | _ \<Rightarrow> False)"
| "relaxed_has_type v t = spec_has_type v t"

text \<open>
  The violations of a record, in schema order: the fields that are absent, and the fields
  that are present with a value outside the field's type.
\<close>

definition violations :: "(json \<Rightarrow> spec_type \<Rightarrow> bool) \<Rightarrow> pydict \<Rightarrow> (string \<times> spec_type) list" where
  "violations has_type d =
     filter (\<lambda>(k, t). case map_of d k of None \<Rightarrow> True | Some v \<Rightarrow> \<not> has_type v t) spec_schema"

text \<open>The Python class that stands for each type of the specification.\<close>

fun class_of_spec_type :: "spec_type \<Rightarrow> classinfo" where
  "class_of_spec_type String = Class C_str"
| "class_of_spec_type Integer = Class C_int"
| "class_of_spec_type SequenceOfString = Class C_list"
| "class_of_spec_type MappingOrNull = ClassPair C_dict C_NoneType"
| "class_of_spec_type SequenceOrNull = ClassPair C_list C_NoneType"
| "class_of_spec_type StringOrNull = ClassPair C_str C_NoneType"

text \<open>The message that reports one violation.\<close>

definition violation_message :: "pydict \<Rightarrow> string \<times> spec_type \<Rightarrow> string" where
  "violation_message d = (\<lambda>(k, t).
     case map_of d k of
       None \<Rightarrow> missing_key_message k
     | Some v \<Rightarrow> incorrect_type_message k (class_of_spec_type t) (type_of v))"

text \<open>A record that satisfies the Expected Schema, used as a concrete input below.\<close>

definition sample_product :: pydict where
  "sample_product =
     [(''brand'', JStr ''Trader Joes''),
      (''title'', JStr ''Organic Bananas''),
      (''description'', JStr ''A bunch of bananas''),
      (''image'', JStr ''http://img.example.com/a.jpg''),
      (''images'', JList [JStr ''http://img.example.com/a.jpg'']),
      (''retail_price'', JStr ''0.99''),
      (''final_price'', JStr ''0.99''),
      (''url'', JStr ''https://www.example.com/p/1''),
      (''product_id'', JInt 1),
      (''category'', JStr ''Produce''),
      (''sales_size'', JStr ''1 lb''),
      (''availability'', JStr ''In stock''),
      (''Buzzwords'', JList []),
      (''nutrition'', JNull),
      (''ingredients'', JNull),
      (''country_of_origin'', JNull)]"

section \<open>More Python primitives\<close>

text \<open>Truth value of a value, as \<^verbatim>\<open>not v\<close> and \<^verbatim>\<open>if v:\<close> take it.\<close>

fun py_bool :: "json \<Rightarrow> bool" where
  "py_bool JNull = False"
| "py_bool (JBool b) = b"
| "py_bool (JInt i) = (i \<noteq> 0)"
| "py_bool (JStr s) = (s \<noteq> [])"
| "py_bool (JList xs) = (xs \<noteq> [])"
| "py_bool (JDict d) = (d \<noteq> [])"

text \<open>The keys of a dict in insertion order, each key once.\<close>

fun dict_keys :: "pydict \<Rightarrow> string list" where
  "dict_keys [] = []"
| "dict_keys ((k, v) # d) = k # filter (\<lambda>k'. k' \<noteq> k) (dict_keys d)"

text \<open>
  \<^verbatim>\<open>for x in v\<close>: the entries of a list, the characters of a string (as strings of
  length one), the keys of a dict; the other values are not iterable.
\<close>

fun py_iter :: "json \<Rightarrow> py_error + json list" where
  "py_iter (JList xs) = Inr xs"
| "py_iter (JStr s) = Inr (map (\<lambda>c. JStr [c]) s)"
| "py_iter (JDict d) = Inr (map JStr (dict_keys d))"
| "py_iter JNull = Inl TypeError"
| "py_iter (JBool b) = Inl TypeError"
| "py_iter (JInt i) = Inl TypeError"

text \<open>
  Membership in a \<^verbatim>\<open>set\<close> hashes the value: lists and dicts are unhashable and
  raise \<^verbatim>\<open>TypeError\<close>. The hashable values are the scalars.
\<close>

datatype scalar = SNone | SBool bool | SInt int | SStr string

fun hashable :: "json \<Rightarrow> py_error + scalar" where
  "hashable JNull = Inr SNone"
| "hashable (JBool b) = Inr (SBool b)"
| "hashable (JInt i) = Inr (SInt i)"
| "hashable (JStr s) = Inr (SStr s)"
| "hashable (JList xs) = Inl TypeError"
| "hashable (JDict d) = Inl TypeError"

text \<open>
  Two scalars are the same member of a set when they are equal in Python:
  \<^verbatim>\<open>True == 1\<close> and \<^verbatim>\<open>False == 0\<close>. A set is modelled by the set of the keys of its
  members.
\<close>

datatype pykey = KNone | KInt int | KStr string

fun set_key :: "scalar \<Rightarrow> pykey" where
  "set_key SNone = KNone"
| "set_key (SBool b) = KInt (if b then 1 else 0)"
| "set_key (SInt i) = KInt i"
| "set_key (SStr s) = KStr s"

text \<open>\<^verbatim>\<open>str(v)\<close> of a scalar, as an f-string renders it.\<close>

fun digits :: "nat \<Rightarrow> string" where
  "digits n = (if n < 10 then [''0123456789'' ! n] else digits (n div 10) @ [''0123456789'' ! (n mod 10)])"

declare digits.simps [simp del]

definition int_str :: "int \<Rightarrow> string" where
  "int_str i = (if i < 0 then ''-'' @ digits (nat (- i)) else digits (nat i))"

fun scalar_str :: "scalar \<Rightarrow> string" where
  "scalar_str SNone = ''None''"
| "scalar_str (SBool b) = (if b then ''True'' else ''False'')"
| "scalar_str (SInt i) = int_str i"
| "scalar_str (SStr s) = s"

text \<open>
  \<^verbatim>\<open>==\<close> on values: numbers (booleans included) by value, strings by content, lists
  entry by entry, dicts by their keys and the values under them; values of different
  kinds are unequal.
\<close>

fun py_num :: "json \<Rightarrow> int option" where
  "py_num (JBool b) = Some (if b then 1 else 0)"
| "py_num (JInt i) = Some i"
| "py_num _ = None"

fun py_eq :: "json \<Rightarrow> json \<Rightarrow> bool"
  and py_eq_list :: "json list \<Rightarrow> json list \<Rightarrow> bool"
  and py_eq_items :: "pydict \<Rightarrow> string list \<Rightarrow> pydict \<Rightarrow> bool" where
  "py_eq JNull y = (y = JNull)"
| "py_eq (JBool b) y = (py_num y = Some (if b then 1 else 0))"
| "py_eq (JInt i) y = (py_num y = Some i)"
| "py_eq (JStr s) y = (y = JStr s)"
| "py_eq (JList xs) y = (case y of JList ys \<Rightarrow> py_eq_list xs ys | _ \<Rightarrow> False)"
| "py_eq (JDict a) y =
     (case y of
        JDict b \<Rightarrow> length (dict_keys a) = length (dict_keys b) \<and> py_eq_items a [] b
      | _ \<Rightarrow> False)"
| "py_eq_list [] ys = (ys = [])"
| "py_eq_list (x # xs) ys = (case ys of [] \<Rightarrow> False | y # ys' \<Rightarrow> py_eq x y \<and> py_eq_list xs ys')"
| "py_eq_items [] seen b = True"
| "py_eq_items ((k, v) # a) seen b =
     (if k \<in> set seen then py_eq_items a seen b
      else (case map_of b k of
              None \<Rightarrow> False
            | Some w \<Rightarrow> py_eq v w \<and> py_eq_items a (k # seen) b))"

text \<open>\<^verbatim>\<open>s <= t\<close> on strings: lexicographic, by code point.\<close>

fun str_le :: "string \<Rightarrow> string \<Rightarrow> bool" where
  "str_le [] t = True"
| "str_le (c # s) [] = False"
| "str_le (c # s) (d # t) = (if c = d then str_le s t else (of_char c :: nat) < of_char d)"

text \<open>
  \<^verbatim>\<open>x <= y\<close>: numbers by value, strings and lists lexicographically (a list
  comparison is decided at the first pair of unequal entries, or by the lengths);
  \<^verbatim>\<open>None\<close>, dicts and values of different kinds are not ordered and raise
  \<^verbatim>\<open>TypeError\<close>.
\<close>

fun py_le :: "json \<Rightarrow> json \<Rightarrow> py_error + bool"
  and py_le_list :: "json list \<Rightarrow> json list \<Rightarrow> py_error + bool" where
  "py_le (JInt m) (JInt n) = Inr (m \<le> n)"
| "py_le (JInt m) (JBool b) = Inr (m \<le> (if b then 1 else 0))"
| "py_le (JBool a) (JInt n) = Inr ((if a then 1 else 0) \<le> n)"
| "py_le (JBool a) (JBool b) = Inr ((if a then 1 else 0 :: int) \<le> (if b then 1 else 0))"
| "py_le (JStr s) (JStr t) = Inr (str_le s t)"
| "py_le (JList xs) (JList ys) = py_le_list xs ys"
| "py_le x y = Inl TypeError"
| "py_le_list [] ys = Inr True"
| "py_le_list (x # xs) [] = Inr False"
| "py_le_list (x # xs) (y # ys) = (if py_eq x y then py_le_list xs ys else py_le x y)"

section \<open>Price consistency check\<close>

text \<open>
  \<^verbatim>\<open>
  def validate_selling_price(product_data):
      selling_price = product_data.get('selling_price')
      original_price = product_data.get('original_price')
      if selling_price is not None and original_price is not None:
          if selling_price <= original_price:
              return True
          else:
              return False
      return True
  \<close>
\<close>

definition validate_selling_price :: "pydict \<Rightarrow> py_error + bool" where
  "validate_selling_price product_data =
     (let selling_price = dict_get product_data ''selling_price'';
          original_price = dict_get product_data ''original_price''
      in if selling_price \<noteq> JNull \<and> original_price \<noteq> JNull then
           (case py_le selling_price original_price of
              Inl e \<Rightarrow> Inl e
            | Inr le \<Rightarrow> if le then Inr True else Inr False)
         else Inr True)"

section \<open>Image presence and validity check\<close>

text \<open>
  \<^verbatim>\<open>
  def validate_image_data(product_data):
      if product_data.get('image') is None:
          return False, "Image key cannot be null"
      images = product_data.get('images')
      if not images or not any(isinstance(img, str) and img.startswith('http') for img in images):
          return False, "Images list should contain at least one URL"
      return True, ""
  \<close>
\<close>

definition startswith :: "string \<Rightarrow> string \<Rightarrow> bool" where
  "startswith s p = (take (length p) s = p)"

fun is_http_string :: "json \<Rightarrow> bool" where
  "is_http_string (JStr img) = startswith img ''http''"
| "is_http_string _ = False"

definition validate_image_data :: "pydict \<Rightarrow> py_error + outcome" where
  "validate_image_data product_data =
     (if dict_get product_data ''image'' = JNull then
        Inr (False, Msg ''Image key cannot be null'')
      else
        let images = dict_get product_data ''images'' in
        if \<not> py_bool images then
          Inr (False, Msg ''Images list should contain at least one URL'')
        else
          (case py_iter images of
             Inl e \<Rightarrow> Inl e
           | Inr imgs \<Rightarrow>
               if \<not> list_ex is_http_string imgs then
                 Inr (False, Msg ''Images list should contain at least one URL'')
               else Inr (True, Msg '''')))"

section \<open>URL format check\<close>

text \<open>
  \<^verbatim>\<open>
  def validate_url_format(product_data):
      url = product_data.get('url')
      if url is not None:
          url_pattern = re.compile(r'^https?://\S+$')
          if not url_pattern.match(url):
              return False, "URL should be in standardized format (e.g., http://example.com)"
      return True, ""
  \<close>
  The class \<^verbatim>\<open>\s\<close> of a pattern over \<^verbatim>\<open>str\<close> holds the characters for which
  \<^verbatim>\<open>str.isspace\<close> is true; below code point 256 these are 9 to 13, 28 to 32, 133 and 160.
\<close>

definition is_space :: "char \<Rightarrow> bool" where
  "is_space c =
     (let n = (of_char c :: nat)
      in (9 \<le> n \<and> n \<le> 13) \<or> (28 \<le> n \<and> n \<le> 32) \<or> n = 133 \<or> n = 160)"

text \<open>
  \<^verbatim>\<open>url_pattern.match(url)\<close>, read off the pattern from left to right: \<^verbatim>\<open>^http\<close>,
  an optional \<^verbatim>\<open>s\<close>, \<^verbatim>\<open>://\<close>, the longest run \<^verbatim>\<open>\S+\<close> of characters that are not
  whitespace, and \<^verbatim>\<open>$\<close>, which without the MULTILINE flag matches at the end of the
  string and also just before a newline that is the last character of the string.
  (No backtracking step can succeed where this reading fails: a character \<^verbatim>\<open>s\<close> after
  \<^verbatim>\<open>http\<close> cannot start \<^verbatim>\<open>://\<close>, and a shorter run would end before a character that is
  not a newline.)
\<close>

definition url_pattern_match :: "string \<Rightarrow> bool" where
  "url_pattern_match url =
     (if \<not> startswith url ''http'' then False
      else
        let r1 = drop 4 url;
            r2 = (if startswith r1 ''s'' then drop 1 r1 else r1)
        in if \<not> startswith r2 ''://'' then False
           else
             let r3 = drop 3 r2;
                 run = takeWhile (\<lambda>c. \<not> is_space c) r3;
                 rest = dropWhile (\<lambda>c. \<not> is_space c) r3
             in run \<noteq> [] \<and> (rest = [] \<or> rest = [CHR 0x0A]))"

definition validate_url_format :: "pydict \<Rightarrow> py_error + outcome" where
  "validate_url_format product_data =
     (case dict_get product_data ''url'' of
        JNull \<Rightarrow> Inr (True, Msg '''')
      | JStr url \<Rightarrow>
          if \<not> url_pattern_match url then
            Inr (False, Msg ''URL should be in standardized format (e.g., http://example.com)'')
          else Inr (True, Msg '''')
      | _ \<Rightarrow> Inl TypeError)"

text \<open>
  The contract of the specification for a url string: \<^verbatim>\<open>http\<close> or \<^verbatim>\<open>https\<close>, followed
  by \<^verbatim>\<open>://\<close>, followed by one or more non-whitespace characters up to the end of the
  string.
\<close>

definition non_whitespace_to_end :: "string \<Rightarrow> bool" where
  "non_whitespace_to_end r = (r \<noteq> [] \<and> list_all (\<lambda>c. \<not> is_space c) r)"

definition spec_url_ok :: "string \<Rightarrow> bool" where
  "spec_url_ok url =
     ((take 7 url = ''http://'' \<and> non_whitespace_to_end (drop 7 url))
      \<or> (take 8 url = ''https://'' \<and> non_whitespace_to_end (drop 8 url)))"

section \<open>Product ID uniqueness check\<close>

text \<open>
  \<^verbatim>\<open>
  def validate_product_id_uniqueness(product_data, product_ids):
      product_id = product_data.get('product_id')
      if product_id in product_ids:
          return False, f"Duplicate product_id: {product_id}"
      else:
          product_ids.add(product_id)
          return True, ""
  \<close>
  The set \<^verbatim>\<open>product_ids\<close> is mutated in place; the model returns it next to the result.
\<close>

definition validate_product_id_uniqueness ::
  "pydict \<Rightarrow> pykey set \<Rightarrow> py_error + (outcome \<times> pykey set)" where
  "validate_product_id_uniqueness product_data product_ids =
     (case hashable (dict_get product_data ''product_id'') of
        Inl e \<Rightarrow> Inl e
      | Inr product_id \<Rightarrow>
          if set_key product_id \<in> product_ids then
            Inr ((False, Msg (''Duplicate product_id: '' @ scalar_str product_id)), product_ids)
          else Inr ((True, Msg ''''), insert (set_key product_id) product_ids))"

section \<open>Duplicate image URL check\<close>

text \<open>
  \<^verbatim>\<open>
  def validate_duplicate_images(product_data):
      images = product_data.get('images')
      if images:
          unique_images = set()
          for image_url in images:
              if image_url in unique_images:
                  return False, f"Duplicate image URL: {image_url}"
              else:
                  unique_images.add(image_url)
      return True, ""
  \<close>
\<close>

fun duplicate_loop :: "json list \<Rightarrow> pykey set \<Rightarrow> py_error + outcome" where
  "duplicate_loop [] unique_images = Inr (True, Msg '''')"
| "duplicate_loop (image_url # rest) unique_images =
     (case hashable image_url of
        Inl e \<Rightarrow> Inl e
      | Inr u \<Rightarrow>
          if set_key u \<in> unique_images then
            Inr (False, Msg (''Duplicate image URL: '' @ scalar_str u))
          else duplicate_loop rest (insert (set_key u) unique_images))"

definition validate_duplicate_images :: "pydict \<Rightarrow> py_error + outcome" where
  "validate_duplicate_images product_data =
     (let images = dict_get product_data ''images'' in
      if py_bool images then
        (case py_iter images of
           Inl e \<Rightarrow> Inl e
         | Inr image_urls \<Rightarrow> duplicate_loop image_urls {})
      else Inr (True, Msg ''''))"

section \<open>Orchestration and batch run\<close>

text \<open>
  \<^verbatim>\<open>
  def validate_pdp_data(json_data):
      product_data = json_data
      if not Validation.is_valid_product_data(product_data):
          return False, "Invalid product data structure"
      is_valid_url, message = Validation.validate_product_data_schema(product_data)
      if not is_valid_url:
          return False, message
      is_valid_images, message = Validation.validate_image_data(product_data)
      if not is_valid_images:
          return False, message
      is_valid_url, message = Validation.validate_url_format(product_data)
      if not is_valid_url:
          return False, message
      global product_ids
      is_valid_id, id_message = Validation.validate_product_id_uniqueness(product_data, product_ids)
      if not is_valid_id:
          return False, id_message
      is_valid_images, message = Validation.validate_duplicate_images(product_data)
      if not is_valid_images:
          return False, message
      return True, "Product data is valid"
  \<close>
  The global set \<^verbatim>\<open>product_ids\<close> is a parameter and a part of the result. An exception
  raised by a check is not caught, so it is the result of the orchestrator. The checks
  after the first are applied to a dict: \<open>is_valid_product_data\<close> is false on every
  other value, which the last case records.
\<close>

definition validate_pdp_data :: "json \<Rightarrow> pykey set \<Rightarrow> py_error + (outcome \<times> pykey set)" where
  "validate_pdp_data json_data product_ids =
     (if \<not> is_valid_product_data json_data then
        Inr ((False, Msg ''Invalid product data structure''), product_ids)
      else
        (case json_data of
           JDict product_data \<Rightarrow>
             (case validate_product_data_schema product_data of
                (is_valid_url, message) \<Rightarrow>
             if \<not> is_valid_url then Inr ((False, message), product_ids)
             else
             (case validate_image_data product_data of
                Inl e \<Rightarrow> Inl e
              | Inr (is_valid_images, message) \<Rightarrow>
             if \<not> is_valid_images then Inr ((False, message), product_ids)
             else
             (case validate_url_format product_data of
                Inl e \<Rightarrow> Inl e
              | Inr (is_valid_url, message) \<Rightarrow>
             if \<not> is_valid_url then Inr ((False, message), product_ids)
             else
             (case validate_product_id_uniqueness product_data product_ids of
                Inl e \<Rightarrow> Inl e
              | Inr ((is_valid_id, id_message), product_ids') \<Rightarrow>
             if \<not> is_valid_id then Inr ((False, id_message), product_ids')
             else
             (case validate_duplicate_images product_data of
                Inl e \<Rightarrow> Inl e
              | Inr (is_valid_images, message) \<Rightarrow>
             if \<not> is_valid_images then Inr ((False, message), product_ids')
             else Inr ((True, Msg ''Product data is valid''), product_ids'))))))
         | _ \<Rightarrow> Inl TypeError))"

text \<open>
  \<^verbatim>\<open>
  invalid_data_details = []
  product_ids = set()
  for index, pdp_data in enumerate(pdp_list, start=1):
      is_valid, message = Validation.validate_pdp_data(pdp_data)
      if not is_valid:
          invalid_data_details.append(f"Product data at index {index} is not valid: {message}")
  \<close>
  An entry of \<^verbatim>\<open>invalid_data_details\<close> is kept as the pair of the index and the message
  that the f-string is built from.
\<close>

fun batch_loop ::
  "json list \<Rightarrow> nat \<Rightarrow> pykey set \<Rightarrow> (nat \<times> reason) list
     \<Rightarrow> py_error + ((nat \<times> reason) list \<times> pykey set)" where
  "batch_loop [] index product_ids invalid_data_details = Inr (invalid_data_details, product_ids)"
| "batch_loop (pdp_data # rest) index product_ids invalid_data_details =
     (case validate_pdp_data pdp_data product_ids of
        Inl e \<Rightarrow> Inl e
      | Inr ((is_valid, message), product_ids') \<Rightarrow>
          if \<not> is_valid then
            batch_loop rest (index + 1) product_ids' (invalid_data_details @ [(index, message)])
          else batch_loop rest (index + 1) product_ids' invalid_data_details)"

definition run_batch :: "json list \<Rightarrow> py_error + ((nat \<times> reason) list \<times> pykey set)" where
  "run_batch pdp_list = batch_loop pdp_list 1 {} []"

section \<open>The values returned by the checks\<close>

text \<open>
  What a check hands back to its caller: \<^verbatim>\<open>return False\<close> and \<^verbatim>\<open>return True\<close> give
  a bare boolean, \<^verbatim>\<open>return False, message\<close> and \<^verbatim>\<open>return True, ""\<close> give a pair.
\<close>

datatype returned = Boolean bool | Pair bool reason

datatype check =
    Is_valid_product_data
  | Validate_product_data_schema
  | Validate_selling_price
  | Validate_image_data
  | Validate_url_format
  | Validate_product_id_uniqueness
  | Validate_duplicate_images

definition pair_of :: "py_error + outcome \<Rightarrow> py_error + returned" where
  "pair_of r = (case r of Inl e \<Rightarrow> Inl e | Inr (ok, message) \<Rightarrow> Inr (Pair ok message))"

fun call_check :: "check \<Rightarrow> pydict \<Rightarrow> pykey set \<Rightarrow> py_error + returned" where
  "call_check Is_valid_product_data product_data product_ids =
     Inr (Boolean (is_valid_product_data (JDict product_data)))"
| "call_check Validate_product_data_schema product_data product_ids =
     pair_of (Inr (validate_product_data_schema product_data))"
| "call_check Validate_selling_price product_data product_ids =
     (case validate_selling_price product_data of Inl e \<Rightarrow> Inl e | Inr b \<Rightarrow> Inr (Boolean b))"
| "call_check Validate_image_data product_data product_ids =
     pair_of (validate_image_data product_data)"
| "call_check Validate_url_format product_data product_ids =
     pair_of (validate_url_format product_data)"
| "call_check Validate_product_id_uniqueness product_data product_ids =
     pair_of (map_sum id fst (validate_product_id_uniqueness product_data product_ids))"
| "call_check Validate_duplicate_images product_data product_ids =
     pair_of (validate_duplicate_images product_data)"

fun is_pair :: "returned \<Rightarrow> bool" where
  "is_pair (Pair ok message) = True"
| "is_pair (Boolean b) = False"







section \<open>Properties\<close>

lemma required_loop_iff:
  "required_loop ks d = (\<forall>k \<in> set ks. dict_has d k)"
  by (induction ks) auto

text \<open>
  Claim C8. The structural presence check returns false for every value that is not a
  mapping and for every mapping that lacks one of the seven required keys brand, title,
  product_id, url, retail_price, image, category; it returns true for every other mapping,
  whatever the values stored under the keys are.
\<close>

theorem is_valid_product_data_presence:
  "is_valid_product_data v =
     (\<exists>d. v = JDict d \<and>
        (\<forall>k \<in> {''brand'', ''title'', ''product_id'', ''url'', ''retail_price'', ''image'',
                ''category''}. \<exists>x. map_of d k = Some x))"
proof (cases v)
  case (JDict d)
  then show ?thesis
    by (simp add: required_loop_iff required_keys_def dict_has_def)
qed simp_all

theorem is_valid_product_data_presence_witness:
  "is_valid_product_data
     (JDict [(''brand'', JNull), (''title'', JInt 3), (''product_id'', JList []),
             (''url'', JBool True), (''retail_price'', JDict []), (''image'', JNull),
             (''category'', JStr ''x'')])
   \<and> \<not> is_valid_product_data (JList [])
   \<and> \<not> is_valid_product_data
       (JDict [(''brand'', JNull), (''title'', JInt 3), (''product_id'', JList []),
               (''url'', JBool True), (''retail_price'', JDict []), (''image'', JNull)])"
  using is_valid_product_data_presence
    [of "JDict [(''brand'', JNull), (''title'', JInt 3), (''product_id'', JList []),
             (''url'', JBool True), (''retail_price'', JDict []), (''image'', JNull),
             (''category'', JStr ''x'')]"]
  by (simp add: required_keys_def dict_has_def)

subsection \<open>Schema type check\<close>

lemma isinstance_relaxed: "isinstance v (class_of_spec_type t) = relaxed_has_type v t"
  by (cases t; cases v) (simp_all add: issubclass_def)

lemma expected_structure_spec:
  "expected_structure = map (\<lambda>(k, t). (k, class_of_spec_type t)) spec_schema"
  by (simp add: expected_structure_def spec_schema_def)

text \<open>The loop appends, in schema order, one message for each field in violation.\<close>

lemma schema_loop_spec:
  "schema_loop (map (\<lambda>(k, t). (k, class_of_spec_type t)) ss) d errs =
     errs @ map (violation_message d)
       (filter (\<lambda>(k, t). case map_of d k of None \<Rightarrow> True | Some v \<Rightarrow> \<not> relaxed_has_type v t) ss)"
  by (induction ss arbitrary: errs)
     (auto simp: violation_message_def dict_has_def dict_get_def isinstance_relaxed
           split: option.splits)

lemma schema_errors_violations:
  "schema_loop expected_structure d [] =
     map (violation_message d) (violations relaxed_has_type d)"
  by (simp add: expected_structure_spec schema_loop_spec violations_def)

lemma nullable_fields:
  assumes "(k, t) \<in> set spec_schema"
    and "k \<in> {''nutrition'', ''ingredients'', ''country_of_origin''}"
  shows "relaxed_has_type JNull t"
proof -
  from assms have "t \<in> {MappingOrNull, SequenceOrNull, StringOrNull}"
    unfolding spec_schema_def by auto
  then show ?thesis by auto
qed

text \<open>
  Claim C2, as stated: the schema check reports exactly one message for each field that
  violates the Expected Schema. It fails on the code: \<^verbatim>\<open>isinstance(True, int)\<close> holds, and
  \<^verbatim>\<open>isinstance(v, list)\<close> does not look at the entries of the list. A record whose
  product_id is \<^verbatim>\<open>True\<close>, and a record whose images are \<^verbatim>\<open>[7]\<close>, each have one violation
  of the Expected Schema and are both reported as valid.
\<close>

theorem schema_check_misses_violation:
  "length (violations spec_has_type ((''product_id'', JBool True) # sample_product)) = 1
   \<and> validate_product_data_schema ((''product_id'', JBool True) # sample_product)
       = (True, Msg ''Product data schema is valid.'')
   \<and> length (violations spec_has_type ((''images'', JList [JInt 7]) # sample_product)) = 1
   \<and> validate_product_data_schema ((''images'', JList [JInt 7]) # sample_product)
       = (True, Msg ''Product data schema is valid.'')"
  by code_simp

text \<open>
  Claim C2, amended. For every record, the schema check examines all 16 fields of the
  Expected Schema without short-circuiting, where a boolean counts as an integer and the
  entries of a sequence are not examined: it returns false with the list that holds, in
  schema order, exactly one message per violation (the missing-key message for an absent
  field, the incorrect-type message for a present field of the wrong type), so a record
  with k violations yields k messages; a record without violation yields true with the
  success message; and a null value of nutrition, ingredients or country_of_origin is
  never a violation.
\<close>

theorem validate_product_data_schema_reports_violations:
  "validate_product_data_schema d =
     (if violations relaxed_has_type d = [] then (True, Msg ''Product data schema is valid.'')
      else (False, Msgs (map (violation_message d) (violations relaxed_has_type d))))
   \<and> length (map (violation_message d) (violations relaxed_has_type d))
       = length (violations relaxed_has_type d)
   \<and> length spec_schema = 16
   \<and> (\<forall>k \<in> {''nutrition'', ''ingredients'', ''country_of_origin''}.
         map_of d k = Some JNull \<longrightarrow> k \<notin> fst ` set (violations relaxed_has_type d))"
proof -
  have "validate_product_data_schema d =
     (if violations relaxed_has_type d = [] then (True, Msg ''Product data schema is valid.'')
      else (False, Msgs (map (violation_message d) (violations relaxed_has_type d))))"
    by (simp add: validate_product_data_schema_def schema_errors_violations Let_def)
  moreover have "length spec_schema = 16"
    by (simp add: spec_schema_def)
  moreover have "k \<notin> fst ` set (violations relaxed_has_type d)"
    if k: "k \<in> {''nutrition'', ''ingredients'', ''country_of_origin''}"
      and null: "map_of d k = Some JNull"
    for k
  proof
    assume "k \<in> fst ` set (violations relaxed_has_type d)"
    then obtain t where "(k, t) \<in> set spec_schema" "\<not> relaxed_has_type JNull t"
      using null by (auto simp: violations_def)
    with k show False
      using nullable_fields by blast
  qed
  ultimately show ?thesis by simp
qed

theorem validate_product_data_schema_reports_violations_witness:
  "validate_product_data_schema ((''product_id'', JStr ''7'') # tl sample_product)
     = (False, Msgs
         [''Missing key '' @ [CHR 0x27] @ ''brand'' @ [CHR 0x27] @ '' in product data.'',
          ''Key '' @ [CHR 0x27] @ ''product_id'' @ [CHR 0x27]
            @ '' has incorrect type. Expected type: <class '' @ [CHR 0x27] @ ''int''
            @ [CHR 0x27] @ ''>, Actual type: <class '' @ [CHR 0x27] @ ''str'' @ [CHR 0x27]
            @ ''>''])
   \<and> validate_product_data_schema sample_product = (True, Msg ''Product data schema is valid.'')
   \<and> map_of sample_product ''nutrition'' = Some JNull
   \<and> ''nutrition'' \<notin> fst ` set (violations relaxed_has_type sample_product)"
proof -
  let ?d = "(''product_id'', JStr ''7'') # tl sample_product"
  have v2: "map (violation_message ?d) (violations relaxed_has_type ?d) =
         [''Missing key '' @ [CHR 0x27] @ ''brand'' @ [CHR 0x27] @ '' in product data.'',
          ''Key '' @ [CHR 0x27] @ ''product_id'' @ [CHR 0x27]
            @ '' has incorrect type. Expected type: <class '' @ [CHR 0x27] @ ''int''
            @ [CHR 0x27] @ ''>, Actual type: <class '' @ [CHR 0x27] @ ''str'' @ [CHR 0x27]
            @ ''>'']"
    by code_simp
  have v0: "violations relaxed_has_type sample_product = []"
    by code_simp
  have n: "map_of sample_product ''nutrition'' = Some JNull"
    by code_simp
  from validate_product_data_schema_reports_violations [of ?d] v2
  have "validate_product_data_schema ?d = (False, Msgs
         [''Missing key '' @ [CHR 0x27] @ ''brand'' @ [CHR 0x27] @ '' in product data.'',
          ''Key '' @ [CHR 0x27] @ ''product_id'' @ [CHR 0x27]
            @ '' has incorrect type. Expected type: <class '' @ [CHR 0x27] @ ''int''
            @ [CHR 0x27] @ ''>, Actual type: <class '' @ [CHR 0x27] @ ''str'' @ [CHR 0x27]
            @ ''>''])"
    by (cases "violations relaxed_has_type ?d") simp_all
  moreover from validate_product_data_schema_reports_violations [of sample_product] v0
  have "validate_product_data_schema sample_product
          = (True, Msg ''Product data schema is valid.'')"
    by simp
  moreover from validate_product_data_schema_reports_violations [of sample_product] n
  have "''nutrition'' \<notin> fst ` set (violations relaxed_has_type sample_product)"
    by blast
  ultimately show ?thesis using n by blast
qed

subsection \<open>Return contract of the checks\<close>

lemma pair_of_is_pair: "pair_of r = Inr v \<Longrightarrow> is_pair v"
  by (auto simp: pair_of_def split: sum.splits prod.splits)

text \<open>
  Claim C5, as stated: every check, the structural presence check and the price
  consistency check included, returns a pair of a boolean and a reason. It fails on the
  code: on the empty record these two checks return the bare booleans \<^verbatim>\<open>False\<close> and
  \<^verbatim>\<open>True\<close>.
\<close>

theorem presence_and_price_checks_return_booleans:
  "call_check Is_valid_product_data [] {} = Inr (Boolean False)
   \<and> call_check Validate_selling_price [] {} = Inr (Boolean True)"
  by code_simp

text \<open>
  Claim C5, amended. Whenever a check returns, it returns a pair of a boolean and a
  reason (a string or a list of strings) if it is one of the schema, image, URL,
  uniqueness and duplicate-image checks, and a bare boolean if it is the structural
  presence check or the price consistency check.
\<close>

theorem call_check_returned_shape:
  assumes "call_check c d ids = Inr v"
  shows "is_pair v = (c \<noteq> Is_valid_product_data \<and> c \<noteq> Validate_selling_price)"
  using assms by (cases c) (auto dest: pair_of_is_pair split: sum.splits)

theorem call_check_returned_shape_witness:
  "call_check Validate_image_data [] {} = Inr (Pair False (Msg ''Image key cannot be null''))
   \<and> is_pair (Pair False (Msg ''Image key cannot be null''))
   \<and> call_check Is_valid_product_data [] {} = Inr (Boolean False)
   \<and> \<not> is_pair (Boolean False)"
proof -
  have e: "call_check Validate_image_data [] {}
             = Inr (Pair False (Msg ''Image key cannot be null''))"
    by code_simp
  have f: "call_check Is_valid_product_data [] {} = Inr (Boolean False)"
    by code_simp
  from call_check_returned_shape [OF e] call_check_returned_shape [OF f] e f
  show ?thesis by simp
qed

subsection \<open>Price consistency check\<close>

lemma validate_selling_price_fields:
  "validate_selling_price d =
     (let s = dict_get d ''selling_price''; p = dict_get d ''original_price''
      in if s = JNull \<or> p = JNull then Inr True else py_le s p)"
  by (auto simp: validate_selling_price_def Let_def split: sum.splits)

text \<open>
  Claim C9, as stated: for every record in which selling_price and original_price are
  present and non-null the check returns true or false. It fails on the code: a string
  and an integer are not ordered by \<^verbatim>\<open><=\<close>, and the check raises \<^verbatim>\<open>TypeError\<close>.
\<close>

theorem price_check_raises_on_unordered_values:
  "validate_selling_price [(''selling_price'', JStr ''10''), (''original_price'', JInt 20)]
     = Inl TypeError"
  by code_simp

text \<open>
  Claim C9, amended. For every record in which selling_price and original_price are
  present, non-null and ordered by \<^verbatim>\<open><=\<close> (two numbers, two strings, two lists that
  compare), the check returns true if selling_price \<open>\<le>\<close> original_price and false
  otherwise; for integers this is the order of the integers. If either field is absent
  or null it returns true. The result depends on the fields selling_price and
  original_price only, so not on retail_price or final_price.
\<close>

theorem validate_selling_price_contract:
  "(dict_get d ''selling_price'' = JInt a \<and> dict_get d ''original_price'' = JInt b
      \<longrightarrow> validate_selling_price d = Inr (a \<le> b))
   \<and> (dict_get d ''selling_price'' \<noteq> JNull \<and> dict_get d ''original_price'' \<noteq> JNull
        \<and> py_le (dict_get d ''selling_price'') (dict_get d ''original_price'') = Inr le
      \<longrightarrow> validate_selling_price d = Inr le)
   \<and> (dict_get d ''selling_price'' = JNull \<or> dict_get d ''original_price'' = JNull
      \<longrightarrow> validate_selling_price d = Inr True)
   \<and> (map_of d ''selling_price'' = map_of d' ''selling_price''
        \<and> map_of d ''original_price'' = map_of d' ''original_price''
      \<longrightarrow> validate_selling_price d = validate_selling_price d')"
  by (auto simp: validate_selling_price_fields Let_def dict_get_def)

theorem validate_selling_price_contract_witness:
  "validate_selling_price [(''selling_price'', JInt 10), (''original_price'', JInt 20)] = Inr True
   \<and> validate_selling_price [(''selling_price'', JInt 20), (''original_price'', JInt 10)] = Inr False
   \<and> validate_selling_price [(''selling_price'', JStr ''a''), (''original_price'', JStr ''b'')]
       = Inr True
   \<and> validate_selling_price [(''selling_price'', JInt 20)] = Inr True
   \<and> validate_selling_price
         [(''selling_price'', JInt 20), (''retail_price'', JInt 9), (''final_price'', JInt 1)]
       = validate_selling_price [(''selling_price'', JInt 20)]"
proof -
  let ?d1 = "[(''selling_price'', JInt 10), (''original_price'', JInt 20)]"
  let ?d2 = "[(''selling_price'', JInt 20), (''original_price'', JInt 10)]"
  let ?d3 = "[(''selling_price'', JStr ''a''), (''original_price'', JStr ''b'')]"
  let ?d4 = "[(''selling_price'', JInt 20)]"
  let ?d5 = "[(''selling_price'', JInt 20), (''retail_price'', JInt 9), (''final_price'', JInt 1)]"
  have g1: "dict_get ?d1 ''selling_price'' = JInt 10 \<and> dict_get ?d1 ''original_price'' = JInt 20"
    by code_simp
  have g2: "dict_get ?d2 ''selling_price'' = JInt 20 \<and> dict_get ?d2 ''original_price'' = JInt 10"
    by code_simp
  have g3: "dict_get ?d3 ''selling_price'' \<noteq> JNull \<and> dict_get ?d3 ''original_price'' \<noteq> JNull
      \<and> py_le (dict_get ?d3 ''selling_price'') (dict_get ?d3 ''original_price'') = Inr True"
    by code_simp
  have g4: "dict_get ?d4 ''selling_price'' = JNull \<or> dict_get ?d4 ''original_price'' = JNull"
    by code_simp
  have g5: "map_of ?d5 ''selling_price'' = map_of ?d4 ''selling_price''
      \<and> map_of ?d5 ''original_price'' = map_of ?d4 ''original_price''"
    by code_simp
  have "validate_selling_price ?d1 = Inr True"
    using validate_selling_price_contract [of ?d1 10 20] g1 by simp
  moreover have "validate_selling_price ?d2 = Inr False"
    using validate_selling_price_contract [of ?d2 20 10] g2 by simp
  moreover have "validate_selling_price ?d3 = Inr True"
    using validate_selling_price_contract [of ?d3 _ _ True] g3 by blast
  moreover have "validate_selling_price ?d4 = Inr True"
    using validate_selling_price_contract [of ?d4] g4 by blast
  moreover have "validate_selling_price ?d5 = validate_selling_price ?d4"
    using validate_selling_price_contract [of ?d5 _ _ _ ?d4] g5 by blast
  ultimately show ?thesis by blast
qed

subsection \<open>Image presence and validity check\<close>

lemma is_http_string_iff:
  "is_http_string img = (\<exists>s. img = JStr s \<and> take 4 s = ''http'')"
  by (cases img) (simp_all add: startswith_def eval_nat_numeral)

text \<open>
  Claim C6, as stated: the two failure reasons are "image key null" and "images list
  should contain at least one URL", for every record. It fails on the code: the reasons
  returned are other strings, and a record whose images field is a number makes the
  check raise \<^verbatim>\<open>TypeError\<close>, since a number cannot be iterated.
\<close>

theorem image_check_reasons_differ:
  "validate_image_data [] = Inr (False, Msg ''Image key cannot be null'')
   \<and> ''Image key cannot be null'' \<noteq> ''image key null''
   \<and> validate_image_data [(''image'', JStr ''http://x''), (''images'', JList [])]
       = Inr (False, Msg ''Images list should contain at least one URL'')
   \<and> ''Images list should contain at least one URL''
       \<noteq> ''images list should contain at least one URL''
   \<and> validate_image_data [(''image'', JStr ''http://x''), (''images'', JInt 5)] = Inl TypeError"
  by code_simp

text \<open>
  Claim C6, amended. For every record whose images field is absent, null or a sequence:
  the image check fails with reason "Image key cannot be null" when the image field is
  null or absent; otherwise it fails with reason "Images list should contain at least one
  URL" when images is absent, null, empty or holds no entry that is a string starting
  with "http"; otherwise it succeeds with the empty reason.
\<close>

theorem validate_image_data_contract:
  "(dict_get d ''image'' = JNull
      \<longrightarrow> validate_image_data d = Inr (False, Msg ''Image key cannot be null''))
   \<and> (dict_get d ''image'' \<noteq> JNull \<and> dict_get d ''images'' = JNull
      \<longrightarrow> validate_image_data d
            = Inr (False, Msg ''Images list should contain at least one URL''))
   \<and> (dict_get d ''image'' \<noteq> JNull \<and> dict_get d ''images'' = JList imgs
        \<and> \<not> (\<exists>img \<in> set imgs. \<exists>s. img = JStr s \<and> take 4 s = ''http'')
      \<longrightarrow> validate_image_data d
            = Inr (False, Msg ''Images list should contain at least one URL''))
   \<and> (dict_get d ''image'' \<noteq> JNull \<and> dict_get d ''images'' = JList imgs
        \<and> (\<exists>img \<in> set imgs. \<exists>s. img = JStr s \<and> take 4 s = ''http'')
      \<longrightarrow> validate_image_data d = Inr (True, Msg ''''))"
proof -
  have ex: "list_ex is_http_string imgs
      = (\<exists>img \<in> set imgs. \<exists>s. img = JStr s \<and> take 4 s = ''http'')"
    by (simp add: list_ex_iff is_http_string_iff)
  show ?thesis
    unfolding ex [symmetric]
    by (auto simp: validate_image_data_def Let_def)
qed

theorem validate_image_data_contract_witness:
  "validate_image_data [(''image'', JNull), (''images'', JList [JStr ''http://a.jpg''])]
     = Inr (False, Msg ''Image key cannot be null'')
   \<and> validate_image_data [(''image'', JStr ''http://x'')]
     = Inr (False, Msg ''Images list should contain at least one URL'')
   \<and> validate_image_data [(''image'', JStr ''http://x''), (''images'', JList [JInt 3, JStr ''a''])]
     = Inr (False, Msg ''Images list should contain at least one URL'')
   \<and> validate_image_data [(''image'', JStr ''http://x''), (''images'', JList [JStr ''http://a.jpg''])]
     = Inr (True, Msg '''')"
proof -
  let ?d1 = "[(''image'', JNull), (''images'', JList [JStr ''http://a.jpg''])]"
  let ?d2 = "[(''image'', JStr ''http://x'')]"
  let ?d3 = "[(''image'', JStr ''http://x''), (''images'', JList [JInt 3, JStr ''a''])]"
  let ?d4 = "[(''image'', JStr ''http://x''), (''images'', JList [JStr ''http://a.jpg''])]"
  have g1: "dict_get ?d1 ''image'' = JNull"
    by code_simp
  have g2: "dict_get ?d2 ''image'' \<noteq> JNull \<and> dict_get ?d2 ''images'' = JNull"
    by code_simp
  have g3: "dict_get ?d3 ''image'' \<noteq> JNull \<and> dict_get ?d3 ''images'' = JList [JInt 3, JStr ''a'']"
    by code_simp
  have n3: "\<not> (\<exists>img \<in> set [JInt 3, JStr ''a'']. \<exists>s. img = JStr s \<and> take 4 s = ''http'')"
    by simp
  have g4: "dict_get ?d4 ''image'' \<noteq> JNull \<and> dict_get ?d4 ''images'' = JList [JStr ''http://a.jpg'']"
    by code_simp
  have n4: "\<exists>img \<in> set [JStr ''http://a.jpg'']. \<exists>s. img = JStr s \<and> take 4 s = ''http''"
    by simp
  have "validate_image_data ?d1 = Inr (False, Msg ''Image key cannot be null'')"
    using validate_image_data_contract [of ?d1] g1 by blast
  moreover have "validate_image_data ?d2
      = Inr (False, Msg ''Images list should contain at least one URL'')"
    using validate_image_data_contract [of ?d2] g2 by blast
  moreover have "validate_image_data ?d3
      = Inr (False, Msg ''Images list should contain at least one URL'')"
    using validate_image_data_contract [of ?d3 "[JInt 3, JStr ''a'']"] g3 n3 by blast
  moreover have "validate_image_data ?d4 = Inr (True, Msg '''')"
    using validate_image_data_contract [of ?d4 "[JStr ''http://a.jpg'']"] g4 n4 by blast
  ultimately show ?thesis by blast
qed

subsection \<open>URL format check\<close>

lemma newline_is_space: "is_space (CHR 0x0A)"
  by (simp add: is_space_def)

lemma run_to_end_iff:
  "(takeWhile (\<lambda>c. \<not> is_space c) r \<noteq> [] \<and>
      (dropWhile (\<lambda>c. \<not> is_space c) r = [] \<or> dropWhile (\<lambda>c. \<not> is_space c) r = [CHR 0x0A]))
   = (non_whitespace_to_end r \<or> (\<exists>q. r = q @ [CHR 0x0A] \<and> non_whitespace_to_end q))"
  (is "?body = ?rhs")
proof
  let ?P = "\<lambda>c. \<not> is_space c"
  assume b: ?body
  then consider "dropWhile ?P r = []" | "dropWhile ?P r = [CHR 0x0A]"
    by auto
  then show ?rhs
  proof cases
    case 1
    then have "takeWhile ?P r = r"
      by (metis takeWhile_dropWhile_id append_Nil2)
    with b have "r \<noteq> []" "\<forall>c \<in> set r. ?P c"
      by (auto simp: takeWhile_eq_all_conv)
    then show ?thesis
      by (simp add: non_whitespace_to_end_def list_all_iff)
  next
    case 2
    then have "r = takeWhile ?P r @ [CHR 0x0A]"
      by (metis takeWhile_dropWhile_id)
    moreover have "non_whitespace_to_end (takeWhile ?P r)"
      using b by (auto simp: non_whitespace_to_end_def list_all_iff dest: set_takeWhileD)
    ultimately show ?thesis by blast
  qed
next
  let ?P = "\<lambda>c. \<not> is_space c"
  assume ?rhs
  then show ?body
  proof
    assume "non_whitespace_to_end r"
    then have "r \<noteq> []" "\<forall>c \<in> set r. ?P c"
      by (auto simp: non_whitespace_to_end_def list_all_iff)
    then show ?thesis by (cases r) simp_all
  next
    assume "\<exists>q. r = q @ [CHR 0x0A] \<and> non_whitespace_to_end q"
    then obtain q where q: "r = q @ [CHR 0x0A]" "q \<noteq> []" "\<forall>c \<in> set q. ?P c"
      by (auto simp: non_whitespace_to_end_def list_all_iff)
    then have "takeWhile ?P r = q" "dropWhile ?P r = [CHR 0x0A]"
      using newline_is_space by (simp_all add: takeWhile_append2 dropWhile_append2)
    with q show ?thesis by simp
  qed
qed

lemma take_literal: "(take (length p) s = p) = (\<exists>r. s = p @ r)"
  by (metis append_take_drop_id append_eq_conv_conj)

lemma take_http: "(take 7 url = ''http://'') = (\<exists>r. url = ''http://'' @ r)"
  using take_literal [of "''http://''" url] by (simp add: eval_nat_numeral)

lemma take_https: "(take 8 url = ''https://'') = (\<exists>r. url = ''https://'' @ r)"
  using take_literal [of "''https://''" url] by (simp add: eval_nat_numeral)

lemma url_pattern_match_prefix:
  "url_pattern_match url =
     ((\<exists>r. url = ''http://'' @ r \<and>
           (non_whitespace_to_end r \<or> (\<exists>q. r = q @ [CHR 0x0A] \<and> non_whitespace_to_end q)))
      \<or> (\<exists>r. url = ''https://'' @ r \<and>
           (non_whitespace_to_end r \<or> (\<exists>q. r = q @ [CHR 0x0A] \<and> non_whitespace_to_end q))))"
  unfolding run_to_end_iff [symmetric]
  unfolding url_pattern_match_def startswith_def take_literal Let_def
  by auto

lemma spec_url_ok_prefix:
  "spec_url_ok url =
     ((\<exists>r. url = ''http://'' @ r \<and> non_whitespace_to_end r)
      \<or> (\<exists>r. url = ''https://'' @ r \<and> non_whitespace_to_end r))"
  unfolding spec_url_ok_def take_http take_https by auto

text \<open>
  The pattern accepts the urls of the specification's contract, and in addition each of
  them followed by one newline.
\<close>

lemma url_pattern_match_iff:
  "url_pattern_match url =
     (spec_url_ok url \<or> (\<exists>u. url = u @ [CHR 0x0A] \<and> spec_url_ok u))"
  unfolding url_pattern_match_prefix spec_url_ok_prefix
  apply (rule iffI)
   apply (elim disjE exE conjE)
      apply blast
     apply (metis append_assoc)
    apply blast
   apply (metis append_assoc)
  apply (elim disjE exE conjE)
     apply blast
    apply blast
   apply (metis append_assoc)
  apply (metis append_assoc)
  done

text \<open>
  Claim C7: a present url string passes the URL format check if and only if it is
  \<^verbatim>\<open>http\<close> or \<^verbatim>\<open>https\<close>, \<^verbatim>\<open>://\<close>, and one or more non-whitespace characters up to
  the end of the string. The code breaks it at a url that ends in a newline: without
  the MULTILINE flag \<^verbatim>\<open>$\<close> also matches just before a final newline, so the url
  \<^verbatim>\<open>http://a\n\<close>, which holds a whitespace character after the scheme, is accepted.
\<close>

theorem url_check_accepts_trailing_newline:
  "validate_url_format [(''url'', JStr (''http://a'' @ [CHR 0x0A]))] = Inr (True, Msg '''')
   \<and> is_space (CHR 0x0A)
   \<and> \<not> spec_url_ok (''http://a'' @ [CHR 0x0A])"
  by code_simp

subsection \<open>Orchestration\<close>

lemma required_loop_cong:
  "\<forall>k \<in> set ks. map_of d k = map_of d' k \<Longrightarrow> required_loop ks d = required_loop ks d'"
  by (induction ks) (auto simp: dict_has_def)

lemma schema_loop_cong:
  "\<forall>k \<in> fst ` set fs. map_of d k = map_of d' k \<Longrightarrow> schema_loop fs d errs = schema_loop fs d' errs"
  by (induction fs d errs rule: schema_loop.induct) (auto simp: dict_has_def dict_get_def)

lemma price_fields_not_required:
  "''selling_price'' \<notin> set required_keys" "''original_price'' \<notin> set required_keys"
  by (simp_all add: required_keys_def)

lemma price_fields_not_in_schema:
  "''selling_price'' \<notin> fst ` set expected_structure"
  "''original_price'' \<notin> fst ` set expected_structure"
  by (simp_all add: expected_structure_def)

lemma validate_pdp_data_cong:
  assumes "\<forall>k. k \<noteq> ''selling_price'' \<and> k \<noteq> ''original_price'' \<longrightarrow> map_of d k = map_of d' k"
  shows "validate_pdp_data (JDict d) ids = validate_pdp_data (JDict d') ids"
proof -
  have 1: "required_loop required_keys d = required_loop required_keys d'"
    using assms price_fields_not_required by (intro required_loop_cong) metis
  have 2: "validate_product_data_schema d = validate_product_data_schema d'"
    unfolding validate_product_data_schema_def
    using assms price_fields_not_in_schema
    by (subst schema_loop_cong [of expected_structure d d']) metis+
  have g: "dict_get d k = dict_get d' k" if "k \<noteq> ''selling_price''" "k \<noteq> ''original_price''" for k
    using assms that by (simp add: dict_get_def)
  have 3: "validate_image_data d = validate_image_data d'"
    by (simp add: validate_image_data_def g)
  have 4: "validate_url_format d = validate_url_format d'"
    by (simp add: validate_url_format_def g)
  have 5: "validate_product_id_uniqueness d ids = validate_product_id_uniqueness d' ids"
    by (simp add: validate_product_id_uniqueness_def g)
  have 6: "validate_duplicate_images d = validate_duplicate_images d'"
    by (simp add: validate_duplicate_images_def g)
  show ?thesis
    unfolding validate_pdp_data_def is_valid_product_data.simps json.case 1 2 3 4 5 6 ..
qed

text \<open>
  Claim C1, as stated: when every invoked check passes, the orchestrator returns true
  with the reason "product data is valid". It fails on the code: the reason returned
  starts with a capital letter.
\<close>

theorem success_message_is_capitalised:
  "validate_pdp_data (JDict sample_product) {}
     = Inr ((True, Msg ''Product data is valid''), {KInt 1})
   \<and> ''Product data is valid'' \<noteq> ''product data is valid''"
  by code_simp

text \<open>
  Claim C1, amended. The orchestrator runs the checks in the fixed order structural
  presence, schema type, image validity, URL format, product-ID uniqueness, duplicate
  images; the first check that fails ends the run with false and that check's reason
  (for the structural check, which has no reason of its own, "Invalid product data
  structure"), whatever the later checks would say; the seen-ID set is only changed by
  a uniqueness check that was reached and passed; when all six checks pass the result is
  true with the reason "Product data is valid". The price consistency check is never
  invoked: two records that differ only in selling_price and original_price get the same
  result.
\<close>

theorem validate_pdp_data_order:
  "(\<not> is_valid_product_data j \<longrightarrow>
      validate_pdp_data j ids = Inr ((False, Msg ''Invalid product data structure''), ids))
   \<and> (is_valid_product_data (JDict d) \<and> validate_product_data_schema d = (False, ms) \<longrightarrow>
      validate_pdp_data (JDict d) ids = Inr ((False, ms), ids))
   \<and> (is_valid_product_data (JDict d) \<and> validate_product_data_schema d = (True, m1)
        \<and> validate_image_data d = Inr (False, m) \<longrightarrow>
      validate_pdp_data (JDict d) ids = Inr ((False, m), ids))
   \<and> (is_valid_product_data (JDict d) \<and> validate_product_data_schema d = (True, m1)
        \<and> validate_image_data d = Inr (True, m2) \<and> validate_url_format d = Inr (False, m) \<longrightarrow>
      validate_pdp_data (JDict d) ids = Inr ((False, m), ids))
   \<and> (is_valid_product_data (JDict d) \<and> validate_product_data_schema d = (True, m1)
        \<and> validate_image_data d = Inr (True, m2) \<and> validate_url_format d = Inr (True, m3)
        \<and> validate_product_id_uniqueness d ids = Inr ((False, m), ids') \<longrightarrow>
      validate_pdp_data (JDict d) ids = Inr ((False, m), ids'))
   \<and> (is_valid_product_data (JDict d) \<and> validate_product_data_schema d = (True, m1)
        \<and> validate_image_data d = Inr (True, m2) \<and> validate_url_format d = Inr (True, m3)
        \<and> validate_product_id_uniqueness d ids = Inr ((True, m4), ids')
        \<and> validate_duplicate_images d = Inr (False, m) \<longrightarrow>
      validate_pdp_data (JDict d) ids = Inr ((False, m), ids'))
   \<and> (is_valid_product_data (JDict d) \<and> validate_product_data_schema d = (True, m1)
        \<and> validate_image_data d = Inr (True, m2) \<and> validate_url_format d = Inr (True, m3)
        \<and> validate_product_id_uniqueness d ids = Inr ((True, m4), ids')
        \<and> validate_duplicate_images d = Inr (True, m5) \<longrightarrow>
      validate_pdp_data (JDict d) ids = Inr ((True, Msg ''Product data is valid''), ids'))
   \<and> ((\<forall>k. k \<noteq> ''selling_price'' \<and> k \<noteq> ''original_price'' \<longrightarrow> map_of d k = map_of d' k) \<longrightarrow>
      validate_pdp_data (JDict d) ids = validate_pdp_data (JDict d') ids)"
  using validate_pdp_data_cong [of d d' ids]
  by (simp add: validate_pdp_data_def del: is_valid_product_data.simps)

theorem validate_pdp_data_order_witness:
  "validate_pdp_data (JList []) {}
     = Inr ((False, Msg ''Invalid product data structure''), {})
   \<and> validate_duplicate_images
        ((''url'', JStr ''ftp://example.com'')
          # (''images'', JList [JStr ''http://a'', JStr ''http://a'']) # sample_product)
     = Inr (False, Msg ''Duplicate image URL: http://a'')
   \<and> validate_pdp_data
        (JDict ((''url'', JStr ''ftp://example.com'')
          # (''images'', JList [JStr ''http://a'', JStr ''http://a'']) # sample_product)) {}
     = Inr ((False, Msg ''URL should be in standardized format (e.g., http://example.com)''), {})
   \<and> validate_pdp_data (JDict sample_product) {}
     = Inr ((True, Msg ''Product data is valid''), {KInt 1})
   \<and> validate_selling_price
        ((''selling_price'', JInt 20) # (''original_price'', JInt 10) # sample_product)
     = Inr False
   \<and> validate_pdp_data
        (JDict ((''selling_price'', JInt 20) # (''original_price'', JInt 10) # sample_product)) {}
     = Inr ((True, Msg ''Product data is valid''), {KInt 1})"
proof -
  let ?u = "(''url'', JStr ''ftp://example.com'')
          # (''images'', JList [JStr ''http://a'', JStr ''http://a'']) # sample_product"
  let ?p = "(''selling_price'', JInt 20) # (''original_price'', JInt 10) # sample_product"
  have n: "\<not> is_valid_product_data (JList [])"
    by simp
  have w1: "validate_pdp_data (JList []) {}
     = Inr ((False, Msg ''Invalid product data structure''), {})"
    using validate_pdp_data_order [of "JList []" "{}"] n by blast
  have u: "is_valid_product_data (JDict ?u)
      \<and> validate_product_data_schema ?u = (True, Msg ''Product data schema is valid.'')
      \<and> validate_image_data ?u = Inr (True, Msg '''')
      \<and> validate_url_format ?u
          = Inr (False, Msg ''URL should be in standardized format (e.g., http://example.com)'')"
    by code_simp
  have w2: "validate_pdp_data (JDict ?u) {}
     = Inr ((False, Msg ''URL should be in standardized format (e.g., http://example.com)''), {})"
    using validate_pdp_data_order [of _ "{}" ?u _ "Msg ''Product data schema is valid.''"
        "Msg ''URL should be in standardized format (e.g., http://example.com)''" "Msg ''''"] u
    by simp
  have dup: "validate_duplicate_images ?u = Inr (False, Msg ''Duplicate image URL: http://a'')"
    by code_simp
  have s: "is_valid_product_data (JDict sample_product)
      \<and> validate_product_data_schema sample_product = (True, Msg ''Product data schema is valid.'')
      \<and> validate_image_data sample_product = Inr (True, Msg '''')
      \<and> validate_url_format sample_product = Inr (True, Msg '''')
      \<and> validate_product_id_uniqueness sample_product {} = Inr ((True, Msg ''''), {KInt 1})
      \<and> validate_duplicate_images sample_product = Inr (True, Msg '''')"
    by code_simp
  have w3: "validate_pdp_data (JDict sample_product) {}
     = Inr ((True, Msg ''Product data is valid''), {KInt 1})"
    using validate_pdp_data_order [of _ "{}" sample_product _
        "Msg ''Product data schema is valid.''" _ "Msg ''''" "Msg ''''" "{KInt 1}" "Msg ''''"
        "Msg ''''"] s
    by simp
  have price: "validate_selling_price ?p = Inr False"
    by code_simp
  have agree: "\<forall>k. k \<noteq> ''selling_price'' \<and> k \<noteq> ''original_price''
      \<longrightarrow> map_of ?p k = map_of sample_product k"
    by simp
  have w4: "validate_pdp_data (JDict ?p) {} = validate_pdp_data (JDict sample_product) {}"
    using validate_pdp_data_order [of _ "{}" ?p _ _ _ _ _ _ _ _ sample_product] agree
    by simp
  from w1 dup w2 w3 price w4 show ?thesis
    by simp
qed

subsection \<open>Exceptions\<close>







text \<open>
  Claim C4: for every record given to the orchestrator, the orchestrator and the batch
  runner return normally, and a validation failure is only ever a (false, reason)
  result. The code breaks it at a record that satisfies the schema check and whose
  images hold an unhashable entry (a nested list or a mapping): the duplicate-image check
  tests \<^verbatim>\<open>image_url in unique_images\<close>, which raises \<^verbatim>\<open>TypeError\<close>; nothing catches it,
  so the orchestrator and the batch run end with the exception.
\<close>

theorem orchestrator_raises_on_unhashable_image:
  "validate_pdp_data
     (JDict ((''images'', JList [JStr ''http://a.jpg'', JList [JStr ''http://b.jpg'']])
              # sample_product)) {}
     = Inl TypeError
   \<and> run_batch
       [JDict ((''images'', JList [JStr ''http://a.jpg'', JList [JStr ''http://b.jpg'']])
                # sample_product)]
     = Inl TypeError
   \<and> validate_product_data_schema
       ((''images'', JList [JStr ''http://a.jpg'', JList [JStr ''http://b.jpg'']])
         # sample_product)
     = (True, Msg ''Product data schema is valid.'')"
  by code_simp

subsection \<open>Product ID uniqueness in the batch run\<close>


























end
